theory Spec2Isabelle
  imports Main "HOL-Library.Word"
begin

section \<open>JavaScript values as the handler of \<^verbatim>\<open>server.js\<close> sees them\<close>

text \<open>
  \<^verbatim>\<open>server.js\<close> is one Express route, \<^verbatim>\<open>POST /analyze-soil\<close>, and one helper,
  \<^verbatim>\<open>callGemini\<close>. The request body has been parsed by \<^verbatim>\<open>express.json()\<close> and the upstream
  body by axios, so every value the handler touches is JSON data, or \<^verbatim>\<open>undefined\<close> where
  a property is missing.

  A JavaScript string is a sequence of UTF-16 code units. \<open>asc\<close> embeds an ASCII literal.
\<close>

type_synonym jsstring = "16 word list"

definition asc :: "string \<Rightarrow> jsstring" where
  "asc s = map (\<lambda>c. of_nat (of_char c)) s"

text \<open>
  Numbers are IEEE doubles. The handler never computes with one: it compares values with
  \<^verbatim>\<open>undefined\<close>, tests their truthiness and interpolates them into a template. The type of
  numbers is therefore a parameter \<open>'n\<close>, and the two operations of the language the
  handler applies to a number are passed in: \<open>numToString\<close> is \<^verbatim>\<open>Number::toString\<close>, and
  \<open>numToBoolean\<close> is \<^verbatim>\<open>ToBoolean\<close> (false exactly for \<^verbatim>\<open>+0\<close>, \<^verbatim>\<open>-0\<close> and \<^verbatim>\<open>NaN\<close>).
\<close>

datatype 'n jsval =
    JUndefined
  | JNull
  | JBool bool
  | JNum 'n
  | JStr jsstring
  | JArr "'n jsval list"
  | JObj "(jsstring \<times> 'n jsval) list"

record 'n number_ops =
  numToString :: "'n \<Rightarrow> jsstring"
  numToBoolean :: "'n \<Rightarrow> bool"

text \<open>
  What \<^verbatim>\<open>throw\<close> carries. The \<^verbatim>\<open>catch\<close> block of the route reads \<^verbatim>\<open>error.message\<close> and
  \<^verbatim>\<open>error.response\<close>; an axios error has a \<^verbatim>\<open>response\<close> (with the numeric HTTP \<^verbatim>\<open>status\<close>
  and the parsed \<^verbatim>\<open>data\<close>) when the server answered, and none on a network failure. A
  \<^verbatim>\<open>TypeError\<close> raised by the language has no \<^verbatim>\<open>response\<close>.
\<close>

datatype 'n axios_response = AxiosResponse (status: nat) (data: "'n jsval")

datatype 'n js_error = JsError (message: jsstring) (response: "'n axios_response option")

definition typeError :: "jsstring \<Rightarrow> 'n js_error" where
  "typeError msg = JsError msg None"

text \<open>
  The promise \<^verbatim>\<open>axios.post\<close> returns resolves with a response, rejects with an error, or
  never settles (the route sets no timeout).
\<close>

datatype 'n outcome = Resolved "'n axios_response" | Rejected "'n js_error" | Pending

text \<open>The arguments of \<^verbatim>\<open>axios.post(url, data, config)\<close>.\<close>

datatype 'n http_request =
  HttpPost (url: jsstring) (payload: "'n jsval") (headers: "(jsstring \<times> jsstring) list")

text \<open>What the route sends back: \<^verbatim>\<open>res.status(code).json(body)\<close>.\<close>

datatype 'n http_response = HttpResponse (statusCode: nat) (body: "'n jsval")

text \<open>
  One run of the route: the outbound calls it made, in order, and its response (none when
  the upstream call never settles).
\<close>

datatype 'n run = Run (calls: "'n http_request list") (reply: "'n http_response option")

section \<open>Operations of the language\<close>

text \<open>\<^verbatim>\<open>ToBoolean\<close>: the truthiness \<^verbatim>\<open>!x\<close> and \<^verbatim>\<open>x || y\<close> test.\<close>

fun toBoolean :: "'n number_ops \<Rightarrow> 'n jsval \<Rightarrow> bool" where
  "toBoolean ops JUndefined = False"
| "toBoolean ops JNull = False"
| "toBoolean ops (JBool b) = b"
| "toBoolean ops (JNum n) = numToBoolean ops n"
| "toBoolean ops (JStr s) = (s \<noteq> [])"
| "toBoolean ops (JArr xs) = True"
| "toBoolean ops (JObj kvs) = True"

text \<open>\<^verbatim>\<open>a || b\<close>.\<close>

definition orElse :: "'n number_ops \<Rightarrow> 'n jsval \<Rightarrow> 'n jsval \<Rightarrow> 'n jsval" where
  "orElse ops a b = (if toBoolean ops a then a else b)"

text \<open>
  \<^verbatim>\<open>v.name\<close> on a value that is neither \<^verbatim>\<open>undefined\<close> nor \<^verbatim>\<open>null\<close>, for a property name that
  no built-in prototype defines. Every name the route reads is of that kind
  (\<^verbatim>\<open>temperature\<close>, ..., \<^verbatim>\<open>cropName\<close>, \<^verbatim>\<open>candidates\<close>, \<^verbatim>\<open>content\<close>, \<^verbatim>\<open>parts\<close>, \<^verbatim>\<open>text\<close>, \<^verbatim>\<open>error\<close>,
  \<^verbatim>\<open>message\<close>), so only an object's own properties can answer: arrays, strings, numbers
  and booleans give \<^verbatim>\<open>undefined\<close>. An object is the list of its own properties.
\<close>

fun getField :: "'n jsval \<Rightarrow> jsstring \<Rightarrow> 'n jsval" where
  "getField (JObj kvs) name = (case map_of kvs name of Some v \<Rightarrow> v | None \<Rightarrow> JUndefined)"
| "getField v name = JUndefined"

text \<open>
  \<^verbatim>\<open>v[0]\<close> on a value that is neither \<^verbatim>\<open>undefined\<close> nor \<^verbatim>\<open>null\<close>: the first element of an
  array, the first code unit of a string, the property \<^verbatim>\<open>"0"\<close> of an object.
\<close>

fun getIndex0 :: "'n jsval \<Rightarrow> 'n jsval" where
  "getIndex0 (JArr []) = JUndefined"
| "getIndex0 (JArr (x # xs)) = x"
| "getIndex0 (JStr []) = JUndefined"
| "getIndex0 (JStr (c # cs)) = JStr [c]"
| "getIndex0 (JObj kvs) = getField (JObj kvs) (asc ''0'')"
| "getIndex0 v = JUndefined"

text \<open>Optional chaining: \<^verbatim>\<open>v?.name\<close> and \<^verbatim>\<open>v?.[0]\<close>.\<close>

definition nullish :: "'n jsval \<Rightarrow> bool" where
  "nullish v = (v = JUndefined \<or> v = JNull)"

definition optField :: "'n jsval \<Rightarrow> jsstring \<Rightarrow> 'n jsval" where
  "optField v name = (if nullish v then JUndefined else getField v name)"

definition optIndex0 :: "'n jsval \<Rightarrow> 'n jsval" where
  "optIndex0 v = (if nullish v then JUndefined else getIndex0 v)"

text \<open>
  \<^verbatim>\<open>ToString\<close>, which a template literal applies to each \<^verbatim>\<open>${...}\<close>. On an object it is
  \<^verbatim>\<open>OrdinaryToPrimitive\<close> with hint string: \<^verbatim>\<open>toString\<close> is tried first, then \<^verbatim>\<open>valueOf\<close>,
  each only if it is callable. JSON data holds no function, so an own property named
  \<^verbatim>\<open>toString\<close> hides \<^verbatim>\<open>Object.prototype.toString\<close> behind a value that is not callable;
  \<^verbatim>\<open>valueOf\<close> (own: not callable, inherited: returns the object itself) yields no
  primitive, and the conversion throws a \<^verbatim>\<open>TypeError\<close>. Without such a property the result
  is \<^verbatim>\<open>[object Object]\<close>. An array is converted by \<^verbatim>\<open>Array.prototype.join\<close>: its elements'
  strings separated by commas, with \<^verbatim>\<open>undefined\<close> and \<^verbatim>\<open>null\<close> elements as the empty
  string.
\<close>

definition notPrimitive :: "jsstring" where
  "notPrimitive = asc ''Cannot convert object to primitive value''"

fun toStringJS :: "'n number_ops \<Rightarrow> 'n jsval \<Rightarrow> 'n js_error + jsstring"
  and joinJS :: "'n number_ops \<Rightarrow> 'n jsval list \<Rightarrow> 'n js_error + jsstring" where
  "toStringJS ops JUndefined = Inr (asc ''undefined'')"
| "toStringJS ops JNull = Inr (asc ''null'')"
| "toStringJS ops (JBool b) = Inr (if b then asc ''true'' else asc ''false'')"
| "toStringJS ops (JNum n) = Inr (numToString ops n)"
| "toStringJS ops (JStr s) = Inr s"
| "toStringJS ops (JArr xs) = joinJS ops xs"
| "toStringJS ops (JObj kvs) =
     (if map_of kvs (asc ''toString'') \<noteq> None then Inl (typeError notPrimitive)
      else Inr (asc ''[object Object]''))"
| "joinJS ops [] = Inr []"
| "joinJS ops (x # xs) =
     (case (if nullish x then Inr [] else toStringJS ops x) of
        Inl e \<Rightarrow> Inl e
      | Inr s \<Rightarrow>
          (if xs = [] then Inr s
           else case joinJS ops xs of
                  Inl e \<Rightarrow> Inl e
                | Inr t \<Rightarrow> Inr (s @ asc '','' @ t)))"

section \<open>The route\<close>

text \<open>Failure and success are threaded as a sum: \<open>Inl\<close> is a thrown error.\<close>

definition andThen :: "'e + 'a \<Rightarrow> ('a \<Rightarrow> 'e + 'b) \<Rightarrow> 'e + 'b" where
  "andThen r f = (case r of Inl e \<Rightarrow> Inl e | Inr x \<Rightarrow> f x)"

definition GEMINI_API_URL :: "jsstring" where
  "GEMINI_API_URL = asc
     ''https://generativelanguage.googleapis.com/v1beta/models/gemini-2.5-flash-preview-09-2025:generateContent''"

text \<open>
  \<^verbatim>\<open>axios.post\<close>. The state is the list of requests sent so far; the upstream's answer may
  depend on it (an upstream that fails once and then succeeds is an \<open>upstream\<close>).
\<close>

definition axiosPost ::
  "('n http_request list \<Rightarrow> 'n http_request \<Rightarrow> 'n outcome) \<Rightarrow> 'n http_request \<Rightarrow>
   'n http_request list \<Rightarrow> 'n outcome \<times> 'n http_request list" where
  "axiosPost upstream req sent = (upstream sent req, sent @ [req])"

text \<open>
  The request \<^verbatim>\<open>callGemini\<close> builds (lines 31 to 33): the key as a query parameter, the
  prompt in the provider's envelope, a JSON content type. \<open>apiKey\<close> is
  \<^verbatim>\<open>process.env.GEMINI_API_KEY || ""\<close>, a string read once at start.
\<close>

definition geminiRequest :: "jsstring \<Rightarrow> jsstring \<Rightarrow> 'n http_request" where
  "geminiRequest apiKey prompt =
     HttpPost (GEMINI_API_URL @ asc ''?key='' @ apiKey)
       (JObj [(asc ''contents'', JArr [JObj [(asc ''parts'', JArr [JObj [(asc ''text'', JStr prompt)]])]])])
       [(asc ''Content-Type'', asc ''application/json'')]"

text \<open>
  \<^verbatim>\<open>callGemini\<close> (lines 28 to 44): one \<^verbatim>\<open>axios.post\<close>; its \<^verbatim>\<open>catch\<close> writes the failure to the
  console and throws it again, so the outcome is the one of \<^verbatim>\<open>axios.post\<close>.
\<close>

definition callGemini ::
  "('n http_request list \<Rightarrow> 'n http_request \<Rightarrow> 'n outcome) \<Rightarrow> jsstring \<Rightarrow> jsstring \<Rightarrow>
   'n http_request list \<Rightarrow> 'n outcome \<times> 'n http_request list" where
  "callGemini upstream apiKey prompt sent = axiosPost upstream (geminiRequest apiKey prompt) sent"

text \<open>
  The names of the destructuring pattern (lines 51 to 61): the eight measurements, then
  \<^verbatim>\<open>cropName\<close>.
\<close>

definition measurementFields :: "jsstring list" where
  "measurementFields =
     [asc ''temperature'', asc ''humidity'', asc ''moisture'', asc ''nitrogen'',
      asc ''phosphorus'', asc ''potassium'', asc ''ph'', asc ''rainfall'']"

definition requiredFields :: "jsstring list" where
  "requiredFields = measurementFields @ [asc ''cropName'']"

text \<open>
  Destructuring \<^verbatim>\<open>undefined\<close> or \<^verbatim>\<open>null\<close> throws a \<^verbatim>\<open>TypeError\<close> (the text is V8's).
\<close>

definition cannotDestructure :: "'n jsval \<Rightarrow> 'n js_error" where
  "cannotDestructure v =
     typeError (asc ''Cannot destructure property '' @ [0x27] @ asc ''temperature'' @ [0x27] @
       asc '' of '' @ [0x27] @ asc ''req.body'' @ [0x27] @ asc '' as it is '' @
       (if v = JNull then asc ''null'' else asc ''undefined'') @ asc ''.'')"

text \<open>
  The template literal of lines 79 to 102, with the text of each \<^verbatim>\<open>${...}\<close> as an argument
  (\<^verbatim>\<open>cropName\<close> occurs twice). Characters outside ASCII are given as their UTF-16 code
  units, the double quote as \<open>0x22\<close>.
\<close>

definition promptText ::
  "jsstring \<Rightarrow> jsstring \<Rightarrow> jsstring \<Rightarrow> jsstring \<Rightarrow> jsstring \<Rightarrow> jsstring \<Rightarrow> jsstring \<Rightarrow>
   jsstring \<Rightarrow> jsstring \<Rightarrow> jsstring \<Rightarrow> jsstring" where
  "promptText crop1 temperature humidity moisture nitrogen phosphorus potassium ph rainfall crop2 =
     asc ''\<newline>'' @
     asc ''You are an expert soil scientist and crop advisor. Analyze the following soil and environmental data to assess if the conditions are suitable for growing '' @ crop1 @ asc ''. Then, provide recommendations for improvement.\<newline>'' @
     asc ''\<newline>'' @
     asc ''Your analysis MUST be concise and practical.\<newline>'' @
     asc ''\<newline>'' @
     asc ''---\<newline>'' @
     asc ''[DATA]\<newline>'' @
     [0xD83C, 0xDF21, 0xFE0F] @ asc '' Temperature: '' @ temperature @ asc '' '' @ [0x00B0] @ asc ''C\<newline>'' @
     [0xD83D, 0xDCA7] @ asc '' Humidity: '' @ humidity @ asc '' %\<newline>'' @
     [0xD83C, 0xDF31] @ asc '' Soil Moisture: '' @ moisture @ asc ''\<newline>'' @
     [0xD83E, 0xDDEA] @ asc '' Nitrogen (N): '' @ nitrogen @ asc '' ppm\<newline>'' @
     [0xD83E, 0xDDEA] @ asc '' Phosphorus (P): '' @ phosphorus @ asc '' ppm\<newline>'' @
     [0xD83E, 0xDDEA] @ asc '' Potassium (K): '' @ potassium @ asc '' ppm\<newline>'' @
     [0x2697, 0xFE0F] @ asc '' pH: '' @ ph @ asc ''\<newline>'' @
     [0xD83C, 0xDF27, 0xFE0F] @ asc '' Rainfall: '' @ rainfall @ asc '' mm\<newline>'' @
     asc ''\<newline>'' @
     asc ''---\<newline>'' @
     asc ''[REQUEST]\<newline>'' @
     asc ''Provide a short report in Markdown format with these exact sections:\<newline>'' @
     asc ''1.  **Soil Health Status:** (Brief overview of N, P, K, and pH)\<newline>'' @
     asc ''2.  **'' @ crop2 @ asc '' Suitability:** (Clear '' @ [0x22] @ asc ''Yes'' @ [0x22] @ asc '', '' @ [0x22] @ asc ''No'' @ [0x22] @ asc '', or '' @ [0x22] @ asc ''Marginal'' @ [0x22] @ asc '' with reason)\<newline>'' @
     asc ''3.  **Recommendations:** (Bulleted list of 2-3 top actions for fertilizer or amendments)\<newline>'' @
     asc ''4.  **Summary:** (A single-line conclusion)\<newline>''"

text \<open>
  Evaluating the template: \<^verbatim>\<open>ToString\<close> of each substitution, left to right; the first
  one that throws ends the evaluation.
\<close>

definition buildPrompt ::
  "'n number_ops \<Rightarrow> 'n jsval \<Rightarrow> 'n jsval \<Rightarrow> 'n jsval \<Rightarrow> 'n jsval \<Rightarrow> 'n jsval \<Rightarrow> 'n jsval \<Rightarrow>
   'n jsval \<Rightarrow> 'n jsval \<Rightarrow> 'n jsval \<Rightarrow> 'n js_error + jsstring" where
  "buildPrompt ops cropName temperature humidity moisture nitrogen phosphorus potassium ph rainfall =
     andThen (toStringJS ops cropName) (\<lambda>crop1.
     andThen (toStringJS ops temperature) (\<lambda>t.
     andThen (toStringJS ops humidity) (\<lambda>h.
     andThen (toStringJS ops moisture) (\<lambda>m.
     andThen (toStringJS ops nitrogen) (\<lambda>n.
     andThen (toStringJS ops phosphorus) (\<lambda>p.
     andThen (toStringJS ops potassium) (\<lambda>k.
     andThen (toStringJS ops ph) (\<lambda>a.
     andThen (toStringJS ops rainfall) (\<lambda>r.
     andThen (toStringJS ops cropName) (\<lambda>crop2.
     Inr (promptText crop1 t h m n p k a r crop2)))))))))))"

text \<open>
  Line 108: \<^verbatim>\<open>aiRes.data?.candidates?.[0]?.content?.parts?.[0]?.text\<close>.
\<close>

definition firstText :: "'n jsval \<Rightarrow> 'n jsval" where
  "firstText d =
     optField (optIndex0 (optField (optField (optIndex0 (optField d (asc ''candidates'')))
       (asc ''content'')) (asc ''parts''))) (asc ''text'')"

text \<open>Line 118: \<^verbatim>\<open>error.response?.data?.error?.message\<close>.\<close>

definition quotaMessage :: "'n js_error \<Rightarrow> 'n jsval" where
  "quotaMessage error =
     (case response error of
        None \<Rightarrow> JUndefined
      | Some r \<Rightarrow> optField (optField (data r) (asc ''error'')) (asc ''message''))"

text \<open>The \<^verbatim>\<open>catch\<close> block of the route (lines 112 to 127).\<close>

definition catchBlock :: "'n number_ops \<Rightarrow> 'n js_error \<Rightarrow> 'n http_response" where
  "catchBlock ops error =
     (if map_option status (response error) = Some 429
      then HttpResponse 429
             (JObj [(asc ''error'', JStr (asc ''Gemini API rate limit exceeded. (RESOURCE_EXHAUSTED)'')),
                    (asc ''message'',
                       orElse ops (quotaMessage error)
                         (JStr (asc ''Quota exceeded. Please wait 1 minute and try again.'')))])
      else HttpResponse 500
             (JObj [(asc ''error'',
                       JStr (asc ''Internal Server Error. Please check your request or server logs.'')),
                    (asc ''message'', JStr (message error))]))"

text \<open>
  The \<^verbatim>\<open>try\<close> block (lines 50 to 111). \<open>Inl\<close> is an error thrown to the \<^verbatim>\<open>catch\<close> block,
  \<open>Inr\<close> a response sent, \<open>None\<close> an \<^verbatim>\<open>await\<close> that never resumes. \<^verbatim>\<open>res.json\<close> without
  \<^verbatim>\<open>res.status\<close> answers 200.
\<close>

definition tryBlock ::
  "'n number_ops \<Rightarrow> jsstring \<Rightarrow> ('n http_request list \<Rightarrow> 'n http_request \<Rightarrow> 'n outcome) \<Rightarrow>
   'n jsval \<Rightarrow> 'n http_request list \<Rightarrow>
   ('n js_error + 'n http_response) option \<times> 'n http_request list" where
  "tryBlock ops apiKey upstream reqBody sent =
     (if nullish reqBody then (Some (Inl (cannotDestructure reqBody)), sent)
      else
        let temperature = getField reqBody (asc ''temperature'');
            humidity = getField reqBody (asc ''humidity'');
            moisture = getField reqBody (asc ''moisture'');
            nitrogen = getField reqBody (asc ''nitrogen'');
            phosphorus = getField reqBody (asc ''phosphorus'');
            potassium = getField reqBody (asc ''potassium'');
            ph = getField reqBody (asc ''ph'');
            rainfall = getField reqBody (asc ''rainfall'');
            cropName = getField reqBody (asc ''cropName'')
        in
          if temperature = JUndefined \<or>
             humidity = JUndefined \<or>
             moisture = JUndefined \<or>
             nitrogen = JUndefined \<or>
             phosphorus = JUndefined \<or>
             potassium = JUndefined \<or>
             ph = JUndefined \<or>
             rainfall = JUndefined \<or>
             \<not> toBoolean ops cropName
          then
            (Some (Inr (HttpResponse 400
               (JObj [(asc ''error'', JStr (asc ''Missing required fields in the request body.''))]))),
             sent)
          else
            (case buildPrompt ops cropName temperature humidity moisture nitrogen phosphorus
                    potassium ph rainfall of
               Inl error \<Rightarrow> (Some (Inl error), sent)
             | Inr prompt \<Rightarrow>
                 (case callGemini upstream apiKey prompt sent of
                    (Pending, sent') \<Rightarrow> (None, sent')
                  | (Rejected error, sent') \<Rightarrow> (Some (Inl error), sent')
                  | (Resolved aiRes, sent') \<Rightarrow>
                      (Some (Inr (HttpResponse 200
                         (JObj [(asc ''success'', JBool True),
                                (asc ''crop'', cropName),
                                (asc ''analysis'',
                                   orElse ops (firstText (data aiRes))
                                     (JStr (asc ''No response from Gemini.'')))]))),
                       sent'))))"

text \<open>
  The route \<^verbatim>\<open>POST /analyze-soil\<close> on the parsed body \<^verbatim>\<open>req.body\<close>, from a state in which
  nothing has been sent.
\<close>

definition analyzeSoil ::
  "'n number_ops \<Rightarrow> jsstring \<Rightarrow> ('n http_request list \<Rightarrow> 'n http_request \<Rightarrow> 'n outcome) \<Rightarrow>
   'n jsval \<Rightarrow> 'n run" where
  "analyzeSoil ops apiKey upstream reqBody =
     (case tryBlock ops apiKey upstream reqBody [] of
        (None, sent) \<Rightarrow> Run sent None
      | (Some (Inr res), sent) \<Rightarrow> Run sent (Some res)
      | (Some (Inl error), sent) \<Rightarrow> Run sent (Some (catchBlock ops error)))"

text \<open>
  Two parts of the \<^verbatim>\<open>try\<close> block as functions of the body: the condition of the \<^verbatim>\<open>if\<close>
  of lines 63 to 73, and the template of lines 79 to 102, each over the destructured
  properties.
\<close>

definition missingRequired :: "'n number_ops \<Rightarrow> 'n jsval \<Rightarrow> bool" where
  "missingRequired ops reqBody =
     (getField reqBody (asc ''temperature'') = JUndefined \<or>
      getField reqBody (asc ''humidity'') = JUndefined \<or>
      getField reqBody (asc ''moisture'') = JUndefined \<or>
      getField reqBody (asc ''nitrogen'') = JUndefined \<or>
      getField reqBody (asc ''phosphorus'') = JUndefined \<or>
      getField reqBody (asc ''potassium'') = JUndefined \<or>
      getField reqBody (asc ''ph'') = JUndefined \<or>
      getField reqBody (asc ''rainfall'') = JUndefined \<or>
      \<not> toBoolean ops (getField reqBody (asc ''cropName'')))"

definition promptFor :: "'n number_ops \<Rightarrow> 'n jsval \<Rightarrow> 'n js_error + jsstring" where
  "promptFor ops reqBody =
     buildPrompt ops (getField reqBody (asc ''cropName''))
       (getField reqBody (asc ''temperature'')) (getField reqBody (asc ''humidity''))
       (getField reqBody (asc ''moisture'')) (getField reqBody (asc ''nitrogen''))
       (getField reqBody (asc ''phosphorus'')) (getField reqBody (asc ''potassium''))
       (getField reqBody (asc ''ph'')) (getField reqBody (asc ''rainfall''))"

section \<open>Example data\<close>

text \<open>
  For concrete runs a number is written as the text \<^verbatim>\<open>Number::toString\<close> gives for it
  (\<^verbatim>\<open>25\<close>, \<^verbatim>\<open>6.5\<close>); \<^verbatim>\<open>+0\<close> and \<^verbatim>\<open>-0\<close> are both \<^verbatim>\<open>0\<close>, and the falsy numbers are the ones
  written \<^verbatim>\<open>0\<close> and \<^verbatim>\<open>NaN\<close>.
\<close>

definition writtenNumber :: "jsstring number_ops" where
  "writtenNumber =
     \<lparr>numToString = (\<lambda>s. s), numToBoolean = (\<lambda>s. s \<noteq> asc ''0'' \<and> s \<noteq> asc ''NaN'')\<rparr>"

text \<open>A body with the nine properties, and the body of the specification's example.\<close>

definition soilSample ::
  "'n jsval \<Rightarrow> 'n jsval \<Rightarrow> 'n jsval \<Rightarrow> 'n jsval \<Rightarrow> 'n jsval \<Rightarrow> 'n jsval \<Rightarrow> 'n jsval \<Rightarrow>
   'n jsval \<Rightarrow> 'n jsval \<Rightarrow> 'n jsval" where
  "soilSample temperature humidity moisture nitrogen phosphorus potassium ph rainfall cropName =
     JObj [(asc ''temperature'', temperature), (asc ''humidity'', humidity),
           (asc ''moisture'', moisture), (asc ''nitrogen'', nitrogen),
           (asc ''phosphorus'', phosphorus), (asc ''potassium'', potassium),
           (asc ''ph'', ph), (asc ''rainfall'', rainfall), (asc ''cropName'', cropName)]"

definition riceSample :: "jsstring jsval" where
  "riceSample =
     soilSample (JNum (asc ''25'')) (JNum (asc ''60'')) (JNum (asc ''40'')) (JNum (asc ''50''))
       (JNum (asc ''30'')) (JNum (asc ''20'')) (JNum (asc ''6.5'')) (JNum (asc ''100''))
       (JStr (asc ''rice''))"

definition ricePrompt :: "jsstring" where
  "ricePrompt =
     promptText (asc ''rice'') (asc ''25'') (asc ''60'') (asc ''40'') (asc ''50'') (asc ''30'')
       (asc ''20'') (asc ''6.5'') (asc ''100'') (asc ''rice'')"

text \<open>
  An upstream body whose first candidate's first content part carries \<open>t\<close> as its text, and
  an upstream that settles every call the same way.
\<close>

definition generated :: "'n jsval \<Rightarrow> 'n jsval" where
  "generated t =
     JObj [(asc ''candidates'',
       JArr [JObj [(asc ''content'', JObj [(asc ''parts'', JArr [JObj [(asc ''text'', t)]])])]])]"

definition always :: "'n outcome \<Rightarrow> 'n http_request list \<Rightarrow> 'n http_request \<Rightarrow> 'n outcome" where
  "always result sent req = result"

section \<open>Facts about the model\<close>

subsection \<open>String literals\<close>

lemma of_char_word_inject:
  "(of_nat (of_char c) :: 16 word) = of_nat (of_char d) \<longleftrightarrow> c = d"
proof -
  have lt: "(of_char x :: nat) < 2 ^ 16" for x
  proof -
    have "(of_char x :: nat) mod 256 = of_char x" by (rule of_char_mod_256)
    then have "(of_char x :: nat) < 256" by (metis mod_less_divisor zero_less_numeral)
    then have "(of_char x :: nat) < 65536" by linarith
    then show ?thesis by simp
  qed
  show ?thesis
    using lt [of c] lt [of d] by (simp add: word_of_nat_eq_iff take_bit_nat_eq_self)
qed

lemma asc_inject [simp]: "asc s = asc t \<longleftrightarrow> s = t"
  unfolding asc_def
  by (rule inj_map_eq_map) (simp add: inj_def of_char_word_inject)

lemma asc_Nil [simp]: "asc [] = []"
  by (simp add: asc_def)

lemma asc_eq_Nil [simp]: "asc s = [] \<longleftrightarrow> s = []" "[] = asc s \<longleftrightarrow> s = []"
  by (auto simp add: asc_def)

subsection \<open>The route, case by case\<close>

text \<open>
  The \<^verbatim>\<open>try\<close> block and the route written over \<open>missingRequired\<close> and \<open>promptFor\<close>: the four
  ways a run can go (no body to destructure, a missing property, a template that throws,
  a call to the upstream) and what each one sends and answers.
\<close>

lemma tryBlock_unfold:
  "tryBlock ops apiKey upstream reqBody sent =
     (if nullish reqBody then (Some (Inl (cannotDestructure reqBody)), sent)
      else if missingRequired ops reqBody
      then (Some (Inr (HttpResponse 400
               (JObj [(asc ''error'', JStr (asc ''Missing required fields in the request body.''))]))),
             sent)
      else
        (case promptFor ops reqBody of
           Inl error \<Rightarrow> (Some (Inl error), sent)
         | Inr prompt \<Rightarrow>
             (case upstream sent (geminiRequest apiKey prompt) of
                Pending \<Rightarrow> (None, sent @ [geminiRequest apiKey prompt])
              | Rejected error \<Rightarrow> (Some (Inl error), sent @ [geminiRequest apiKey prompt])
              | Resolved aiRes \<Rightarrow>
                  (Some (Inr (HttpResponse 200
                     (JObj [(asc ''success'', JBool True),
                            (asc ''crop'', getField reqBody (asc ''cropName'')),
                            (asc ''analysis'',
                               orElse ops (firstText (data aiRes))
                                 (JStr (asc ''No response from Gemini.'')))]))),
                   sent @ [geminiRequest apiKey prompt]))))"
  unfolding tryBlock_def missingRequired_def promptFor_def callGemini_def axiosPost_def Let_def
  by (simp split: sum.split outcome.split)

lemma analyzeSoil_unfold:
  "analyzeSoil ops apiKey upstream reqBody =
     (if nullish reqBody then Run [] (Some (catchBlock ops (cannotDestructure reqBody)))
      else if missingRequired ops reqBody
      then Run [] (Some (HttpResponse 400
               (JObj [(asc ''error'', JStr (asc ''Missing required fields in the request body.''))])))
      else
        (case promptFor ops reqBody of
           Inl error \<Rightarrow> Run [] (Some (catchBlock ops error))
         | Inr prompt \<Rightarrow>
             Run [geminiRequest apiKey prompt]
               (case upstream [] (geminiRequest apiKey prompt) of
                  Pending \<Rightarrow> None
                | Rejected error \<Rightarrow> Some (catchBlock ops error)
                | Resolved aiRes \<Rightarrow>
                    Some (HttpResponse 200
                       (JObj [(asc ''success'', JBool True),
                              (asc ''crop'', getField reqBody (asc ''cropName'')),
                              (asc ''analysis'',
                                 orElse ops (firstText (data aiRes))
                                   (JStr (asc ''No response from Gemini.'')))])))))"
  unfolding analyzeSoil_def tryBlock_unfold
  by (simp split: sum.split outcome.split)


lemma calls_singleton:
  assumes "calls (analyzeSoil ops apiKey upstream reqBody) = [req]"
  shows "\<exists>prompt. \<not> nullish reqBody \<and> \<not> missingRequired ops reqBody \<and>
           promptFor ops reqBody = Inr prompt \<and> req = geminiRequest apiKey prompt"
  using assms by (auto simp add: analyzeSoil_unfold split: if_splits sum.splits)

lemma analyzeSoil_forwarded:
  assumes "\<not> nullish reqBody" and "\<not> missingRequired ops reqBody"
    and "promptFor ops reqBody = Inr prompt"
  shows "analyzeSoil ops apiKey upstream reqBody =
     Run [geminiRequest apiKey prompt]
       (case upstream [] (geminiRequest apiKey prompt) of
          Pending \<Rightarrow> None
        | Rejected error \<Rightarrow> Some (catchBlock ops error)
        | Resolved aiRes \<Rightarrow>
            Some (HttpResponse 200
               (JObj [(asc ''success'', JBool True),
                      (asc ''crop'', getField reqBody (asc ''cropName'')),
                      (asc ''analysis'',
                         orElse ops (firstText (data aiRes))
                           (JStr (asc ''No response from Gemini.'')))])))"
  using assms by (simp add: analyzeSoil_unfold)

lemma reply_rejected:
  assumes "calls (analyzeSoil ops apiKey upstream reqBody) = [req]"
    and "upstream [] req = Rejected error"
  shows "reply (analyzeSoil ops apiKey upstream reqBody) = Some (catchBlock ops error)"
proof -
  from calls_singleton [OF assms(1)] obtain prompt where
    "\<not> nullish reqBody" "\<not> missingRequired ops reqBody"
    "promptFor ops reqBody = Inr prompt" "req = geminiRequest apiKey prompt"
    by blast
  with assms(2) show ?thesis
    by (simp add: analyzeSoil_forwarded)
qed

subsection \<open>The example data\<close>

lemma getField_soilSample:
  "getField (soilSample t h m n p k a r c) (asc ''temperature'') = t"
  "getField (soilSample t h m n p k a r c) (asc ''humidity'') = h"
  "getField (soilSample t h m n p k a r c) (asc ''moisture'') = m"
  "getField (soilSample t h m n p k a r c) (asc ''nitrogen'') = n"
  "getField (soilSample t h m n p k a r c) (asc ''phosphorus'') = p"
  "getField (soilSample t h m n p k a r c) (asc ''potassium'') = k"
  "getField (soilSample t h m n p k a r c) (asc ''ph'') = a"
  "getField (soilSample t h m n p k a r c) (asc ''rainfall'') = r"
  "getField (soilSample t h m n p k a r c) (asc ''cropName'') = c"
  by (simp_all add: soilSample_def)

lemma nullish_soilSample: "\<not> nullish (soilSample t h m n p k a r c)"
  by (simp add: nullish_def soilSample_def)

lemma missingRequired_soilSample:
  "missingRequired ops (soilSample t h m n p k a r c) \<longleftrightarrow>
     t = JUndefined \<or> h = JUndefined \<or> m = JUndefined \<or> n = JUndefined \<or> p = JUndefined \<or>
     k = JUndefined \<or> a = JUndefined \<or> r = JUndefined \<or> \<not> toBoolean ops c"
  by (simp add: missingRequired_def getField_soilSample)

lemma promptFor_soilSample:
  "promptFor ops (soilSample t h m n p k a r c) = buildPrompt ops c t h m n p k a r"
  by (simp add: promptFor_def getField_soilSample)

lemma buildPrompt_Inr:
  assumes "toStringJS ops c = Inr cs" "toStringJS ops t = Inr ts" "toStringJS ops h = Inr hs"
    "toStringJS ops m = Inr ms" "toStringJS ops n = Inr ns" "toStringJS ops p = Inr ps"
    "toStringJS ops k = Inr ks" "toStringJS ops a = Inr as" "toStringJS ops r = Inr rs"
  shows "buildPrompt ops c t h m n p k a r = Inr (promptText cs ts hs ms ns ps ks as rs cs)"
  using assms by (simp add: buildPrompt_def andThen_def)

lemma riceSample_valid:
  "\<not> nullish riceSample"
  "\<not> missingRequired writtenNumber riceSample"
  "promptFor writtenNumber riceSample = Inr ricePrompt"
  "getField riceSample (asc ''cropName'') = JStr (asc ''rice'')"
  by (simp_all add: riceSample_def nullish_soilSample missingRequired_soilSample
      promptFor_soilSample buildPrompt_Inr writtenNumber_def ricePrompt_def getField_soilSample)

lemma riceSample_run:
  "analyzeSoil writtenNumber apiKey (always result) riceSample =
     Run [geminiRequest apiKey ricePrompt]
       (case result of
          Pending \<Rightarrow> None
        | Rejected error \<Rightarrow> Some (catchBlock writtenNumber error)
        | Resolved aiRes \<Rightarrow>
            Some (HttpResponse 200
               (JObj [(asc ''success'', JBool True),
                      (asc ''crop'', JStr (asc ''rice'')),
                      (asc ''analysis'',
                         orElse writtenNumber (firstText (data aiRes))
                           (JStr (asc ''No response from Gemini.'')))])))"
  by (simp add: analyzeSoil_forwarded [OF riceSample_valid(1,2,3)] riceSample_valid(4) always_def
      split: outcome.split)

subsection \<open>Reading the upstream's answer\<close>

lemma firstText_nested:
  assumes "map_of d (asc ''candidates'') = Some (JArr (JObj c # cs))"
    and "map_of c (asc ''content'') = Some (JObj ct)"
    and "map_of ct (asc ''parts'') = Some (JArr (JObj pt # pts))"
    and "map_of pt (asc ''text'') = Some t"
  shows "firstText (JObj d) = t"
  using assms by (simp add: firstText_def optField_def optIndex0_def nullish_def)

lemma firstText_generated: "firstText (generated t) = t"
  by (simp add: generated_def firstText_nested)

lemma reply_resolved:
  assumes "\<not> nullish reqBody" and "\<not> missingRequired ops reqBody"
    and "promptFor ops reqBody = Inr prompt"
    and "upstream [] (geminiRequest apiKey prompt) = Resolved aiRes"
  shows "reply (analyzeSoil ops apiKey upstream reqBody) =
     Some (HttpResponse 200
       (JObj [(asc ''success'', JBool True),
              (asc ''crop'', getField reqBody (asc ''cropName'')),
              (asc ''analysis'',
                 orElse ops (firstText (data aiRes)) (JStr (asc ''No response from Gemini.'')))]))"
  using assms(4) by (simp add: analyzeSoil_forwarded [OF assms(1,2,3)])

subsection \<open>Validation and the template\<close>

lemma getField_nullish: "nullish v \<Longrightarrow> getField v name = JUndefined"
  by (auto simp add: nullish_def)

lemma missingRequired_iff:
  "missingRequired ops reqBody \<longleftrightarrow>
     (\<exists>f \<in> set measurementFields. getField reqBody f = JUndefined) \<or>
     \<not> toBoolean ops (getField reqBody (asc ''cropName''))"
  by (simp add: missingRequired_def measurementFields_def)

lemma missingRequired_nullish: "nullish reqBody \<Longrightarrow> missingRequired ops reqBody"
  by (simp add: missingRequired_def getField_nullish)

lemma missingRequired_absent:
  assumes "f \<in> set requiredFields" and "getField reqBody f = JUndefined"
  shows "missingRequired ops reqBody"
  using assms by (auto simp add: missingRequired_iff requiredFields_def)

lemma analyzeSoil_nullish:
  "nullish reqBody \<Longrightarrow>
   analyzeSoil ops apiKey upstream reqBody =
     Run [] (Some (catchBlock ops (cannotDestructure reqBody)))"
  by (simp add: analyzeSoil_unfold)

lemma analyzeSoil_missing:
  "\<not> nullish reqBody \<Longrightarrow> missingRequired ops reqBody \<Longrightarrow>
   analyzeSoil ops apiKey upstream reqBody =
     Run [] (Some (HttpResponse 400
       (JObj [(asc ''error'', JStr (asc ''Missing required fields in the request body.''))])))"
  by (simp add: analyzeSoil_unfold)

lemma analyzeSoil_throws:
  "\<not> nullish reqBody \<Longrightarrow> \<not> missingRequired ops reqBody \<Longrightarrow> promptFor ops reqBody = Inl error \<Longrightarrow>
   analyzeSoil ops apiKey upstream reqBody = Run [] (Some (catchBlock ops error))"
  by (simp add: analyzeSoil_unfold)

lemma calls_forwarded:
  "\<not> nullish reqBody \<Longrightarrow> \<not> missingRequired ops reqBody \<Longrightarrow> promptFor ops reqBody = Inr prompt \<Longrightarrow>
   calls (analyzeSoil ops apiKey upstream reqBody) = [geminiRequest apiKey prompt]"
  by (simp add: analyzeSoil_unfold)

lemma promptFor_Inr:
  assumes "toStringJS ops (getField reqBody (asc ''cropName'')) = Inr c"
    and "toStringJS ops (getField reqBody (asc ''temperature'')) = Inr t"
    and "toStringJS ops (getField reqBody (asc ''humidity'')) = Inr h"
    and "toStringJS ops (getField reqBody (asc ''moisture'')) = Inr m"
    and "toStringJS ops (getField reqBody (asc ''nitrogen'')) = Inr n"
    and "toStringJS ops (getField reqBody (asc ''phosphorus'')) = Inr p"
    and "toStringJS ops (getField reqBody (asc ''potassium'')) = Inr k"
    and "toStringJS ops (getField reqBody (asc ''ph'')) = Inr a"
    and "toStringJS ops (getField reqBody (asc ''rainfall'')) = Inr r"
  shows "promptFor ops reqBody = Inr (promptText c t h m n p k a r c)"
  unfolding promptFor_def by (rule buildPrompt_Inr [OF assms])

lemma promptFor_convertible:
  assumes "\<forall>f \<in> set requiredFields. \<exists>s. toStringJS ops (getField reqBody f) = Inr s"
  shows "\<exists>prompt. promptFor ops reqBody = Inr prompt"
proof -
  from assms obtain c t h m n p k a r where
    "toStringJS ops (getField reqBody (asc ''cropName'')) = Inr c"
    "toStringJS ops (getField reqBody (asc ''temperature'')) = Inr t"
    "toStringJS ops (getField reqBody (asc ''humidity'')) = Inr h"
    "toStringJS ops (getField reqBody (asc ''moisture'')) = Inr m"
    "toStringJS ops (getField reqBody (asc ''nitrogen'')) = Inr n"
    "toStringJS ops (getField reqBody (asc ''phosphorus'')) = Inr p"
    "toStringJS ops (getField reqBody (asc ''potassium'')) = Inr k"
    "toStringJS ops (getField reqBody (asc ''ph'')) = Inr a"
    "toStringJS ops (getField reqBody (asc ''rainfall'')) = Inr r"
    unfolding requiredFields_def measurementFields_def by auto
  from promptFor_Inr [OF this] show ?thesis by blast
qed

lemma promptFor_cong:
  assumes "\<forall>f \<in> set requiredFields. getField b1 f = getField b2 f"
  shows "promptFor ops b1 = promptFor ops b2" and "missingRequired ops b1 = missingRequired ops b2"
  using assms by (simp_all add: promptFor_def missingRequired_def requiredFields_def measurementFields_def)

subsection \<open>Conversions that throw\<close>

text \<open>
  The only error \<open>toStringJS\<close> raises is the \<^verbatim>\<open>TypeError\<close> of \<open>notPrimitive\<close>; a value that
  raises it is an object or an array, hence defined and truthy; and one such value among
  the nine makes the whole template throw.
\<close>

lemma toStringJS_throws_typeError:
  "toStringJS ops v = Inl e \<Longrightarrow> e = typeError notPrimitive"
  "joinJS ops xs = Inl e \<Longrightarrow> e = typeError notPrimitive"
  by (induction ops v and ops xs arbitrary: e and e rule: toStringJS_joinJS.induct)
     (auto split: if_splits sum.splits)

lemma toStringJS_throws_present:
  assumes "toStringJS ops v = Inl e"
  shows "v \<noteq> JUndefined \<and> toBoolean ops v"
  using assms by (cases v) auto

lemma joinJS_member_throws:
  assumes "x \<in> set xs" and "toStringJS ops x = Inl e"
  shows "\<exists>e'. joinJS ops xs = Inl e'"
  using assms
proof (induction xs)
  case Nil
  then show ?case by simp
next
  case (Cons y ys)
  have nn: "\<not> nullish x"
    using Cons.prems(2) by (auto simp add: nullish_def)
  show ?case
  proof (cases "x = y")
    case True
    with Cons.prems(2) nn show ?thesis by simp
  next
    case False
    with Cons.prems have "x \<in> set ys" by simp
    with Cons.IH Cons.prems(2) obtain e' where "joinJS ops ys = Inl e'" by blast
    moreover from \<open>x \<in> set ys\<close> have "ys \<noteq> []" by auto
    ultimately show ?thesis by (simp split: sum.split)
  qed
qed

lemma buildPrompt_Inr_converts:
  assumes "buildPrompt ops c t h m n p k a r = Inr q"
  shows "\<forall>v \<in> {c, t, h, m, n, p, k, a, r}. \<exists>s. toStringJS ops v = Inr s"
  using assms by (auto simp add: buildPrompt_def andThen_def split: sum.splits)

lemma buildPrompt_Inl_typeError:
  assumes "buildPrompt ops c t h m n p k a r = Inl e"
  shows "e = typeError notPrimitive"
  using assms
  by (auto simp add: buildPrompt_def andThen_def split: sum.splits
      dest: toStringJS_throws_typeError(1))

lemma buildPrompt_throws:
  assumes "v \<in> {c, t, h, m, n, p, k, a, r}" and "toStringJS ops v = Inl e"
  shows "buildPrompt ops c t h m n p k a r = Inl (typeError notPrimitive)"
proof (cases "buildPrompt ops c t h m n p k a r")
  case (Inl e')
  then show ?thesis using buildPrompt_Inl_typeError by blast
next
  case (Inr q)
  from buildPrompt_Inr_converts [OF this] assms show ?thesis by fastforce
qed

lemma promptFor_throws:
  assumes "f \<in> set requiredFields" and "toStringJS ops (getField reqBody f) = Inl e"
  shows "promptFor ops reqBody = Inl (typeError notPrimitive)"
  unfolding promptFor_def
  using assms(1)
  by (intro buildPrompt_throws [OF _ assms(2)])
     (auto simp add: requiredFields_def measurementFields_def)

lemma catchBlock_typeError:
  "catchBlock ops (typeError msg) =
     HttpResponse 500
       (JObj [(asc ''error'',
                 JStr (asc ''Internal Server Error. Please check your request or server logs.'')),
              (asc ''message'', JStr msg)])"
  by (simp add: catchBlock_def typeError_def)

section \<open>The claims\<close>

subsection \<open>Upstream failures\<close>

text \<open>
  Claim C2. Whenever the route has made its upstream call and that call fails with an
  error whose response carries HTTP status 429, the route answers HTTP 429 (not 500). The
  body has the fixed \<^verbatim>\<open>error\<close> string, and its \<^verbatim>\<open>message\<close> is the upstream's
  \<^verbatim>\<open>response.data.error.message\<close> unchanged when that value is there and truthy (a
  non-empty string), and the fixed text \<^verbatim>\<open>Quota exceeded. Please wait 1 minute and try
  again.\<close> otherwise.
\<close>

theorem rate_limit_answers_429:
  assumes "calls (analyzeSoil ops apiKey upstream reqBody) = [req]"
    and "upstream [] req = Rejected error"
    and "response error = Some r" and "status r = 429"
  shows "reply (analyzeSoil ops apiKey upstream reqBody) =
     Some (HttpResponse 429
       (JObj [(asc ''error'', JStr (asc ''Gemini API rate limit exceeded. (RESOURCE_EXHAUSTED)'')),
              (asc ''message'',
                 if toBoolean ops (quotaMessage error) then quotaMessage error
                 else JStr (asc ''Quota exceeded. Please wait 1 minute and try again.''))]))"
  using assms(3,4) by (simp add: reply_rejected [OF assms(1,2)] catchBlock_def orElse_def)

theorem rate_limit_answers_429_witness:
  "reply (analyzeSoil writtenNumber (asc ''key'')
      (always (Rejected (JsError (asc ''Request failed with status code 429'')
         (Some (AxiosResponse 429
            (JObj [(asc ''error'',
               JObj [(asc ''code'', JNum (asc ''429'')),
                     (asc ''message'', JStr (asc ''Quota exceeded for metric generate_content'')),
                     (asc ''status'', JStr (asc ''RESOURCE_EXHAUSTED''))])]))))))
      riceSample) =
     Some (HttpResponse 429
       (JObj [(asc ''error'', JStr (asc ''Gemini API rate limit exceeded. (RESOURCE_EXHAUSTED)'')),
              (asc ''message'', JStr (asc ''Quota exceeded for metric generate_content''))]))
   \<and> reply (analyzeSoil writtenNumber (asc ''key'')
      (always (Rejected (JsError (asc ''Request failed with status code 429'')
         (Some (AxiosResponse 429 (JStr (asc ''Too Many Requests'')))))))
      riceSample) =
     Some (HttpResponse 429
       (JObj [(asc ''error'', JStr (asc ''Gemini API rate limit exceeded. (RESOURCE_EXHAUSTED)'')),
              (asc ''message'', JStr (asc ''Quota exceeded. Please wait 1 minute and try again.''))]))"
  using
    rate_limit_answers_429 [where ops = writtenNumber and apiKey = "asc ''key''" and
      reqBody = riceSample and req = "geminiRequest (asc ''key'') ricePrompt" and
      upstream = "always (Rejected (JsError (asc ''Request failed with status code 429'')
         (Some (AxiosResponse 429
            (JObj [(asc ''error'',
               JObj [(asc ''code'', JNum (asc ''429'')),
                     (asc ''message'', JStr (asc ''Quota exceeded for metric generate_content'')),
                     (asc ''status'', JStr (asc ''RESOURCE_EXHAUSTED''))])])))))" and
      error = "JsError (asc ''Request failed with status code 429'')
         (Some (AxiosResponse 429
            (JObj [(asc ''error'',
               JObj [(asc ''code'', JNum (asc ''429'')),
                     (asc ''message'', JStr (asc ''Quota exceeded for metric generate_content'')),
                     (asc ''status'', JStr (asc ''RESOURCE_EXHAUSTED''))])])))" and
      r = "AxiosResponse 429
            (JObj [(asc ''error'',
               JObj [(asc ''code'', JNum (asc ''429'')),
                     (asc ''message'', JStr (asc ''Quota exceeded for metric generate_content'')),
                     (asc ''status'', JStr (asc ''RESOURCE_EXHAUSTED''))])])"]
    rate_limit_answers_429 [where ops = writtenNumber and apiKey = "asc ''key''" and
      reqBody = riceSample and req = "geminiRequest (asc ''key'') ricePrompt" and
      upstream = "always (Rejected (JsError (asc ''Request failed with status code 429'')
         (Some (AxiosResponse 429 (JStr (asc ''Too Many Requests''))))))" and
      error = "JsError (asc ''Request failed with status code 429'')
         (Some (AxiosResponse 429 (JStr (asc ''Too Many Requests''))))" and
      r = "AxiosResponse 429 (JStr (asc ''Too Many Requests''))"]
  by (simp add: riceSample_run always_def quotaMessage_def optField_def nullish_def)

text \<open>
  Claim C3. Whenever the route has made its upstream call and that call fails with any
  other error (a response with a status other than 429, or no response at all, as on a
  network failure), the route answers HTTP 500 with an \<^verbatim>\<open>error\<close> field and a \<^verbatim>\<open>message\<close>
  field, the latter being the \<^verbatim>\<open>message\<close> of the error.
\<close>

theorem other_failure_answers_500:
  assumes "calls (analyzeSoil ops apiKey upstream reqBody) = [req]"
    and "upstream [] req = Rejected error"
    and "map_option status (response error) \<noteq> Some 429"
  shows "reply (analyzeSoil ops apiKey upstream reqBody) =
     Some (HttpResponse 500
       (JObj [(asc ''error'',
                 JStr (asc ''Internal Server Error. Please check your request or server logs.'')),
              (asc ''message'', JStr (message error))]))"
  using assms(3) by (simp add: reply_rejected [OF assms(1,2)] catchBlock_def)

theorem other_failure_answers_500_witness:
  "reply (analyzeSoil writtenNumber (asc ''key'')
      (always (Rejected (JsError (asc ''connect ETIMEDOUT'') None))) riceSample) =
     Some (HttpResponse 500
       (JObj [(asc ''error'',
                 JStr (asc ''Internal Server Error. Please check your request or server logs.'')),
              (asc ''message'', JStr (asc ''connect ETIMEDOUT''))]))
   \<and> reply (analyzeSoil writtenNumber (asc ''key'')
      (always (Rejected (JsError (asc ''Request failed with status code 500'')
         (Some (AxiosResponse 500 (JObj []))))))
      riceSample) =
     Some (HttpResponse 500
       (JObj [(asc ''error'',
                 JStr (asc ''Internal Server Error. Please check your request or server logs.'')),
              (asc ''message'', JStr (asc ''Request failed with status code 500''))]))"
  using
    other_failure_answers_500 [where ops = writtenNumber and apiKey = "asc ''key''" and
      reqBody = riceSample and req = "geminiRequest (asc ''key'') ricePrompt" and
      upstream = "always (Rejected (JsError (asc ''connect ETIMEDOUT'') None))" and
      error = "JsError (asc ''connect ETIMEDOUT'') None"]
    other_failure_answers_500 [where ops = writtenNumber and apiKey = "asc ''key''" and
      reqBody = riceSample and req = "geminiRequest (asc ''key'') ricePrompt" and
      upstream = "always (Rejected (JsError (asc ''Request failed with status code 500'')
         (Some (AxiosResponse 500 (JObj [])))))" and
      error = "JsError (asc ''Request failed with status code 500'')
         (Some (AxiosResponse 500 (JObj [])))"]
  by (simp add: riceSample_run always_def)

subsection \<open>Upstream success\<close>





text \<open>
  Claim C9. For every valid payload whose upstream call succeeds with a well-formed nested
  body whose first candidate's first part's text is the empty string, \<^verbatim>\<open>analysis\<close> is the
  fallback \<^verbatim>\<open>No response from Gemini.\<close> and not the empty string: \<^verbatim>\<open>||\<close> tests truthiness,
  not presence.
\<close>

theorem empty_text_falls_back:
  assumes "\<not> nullish reqBody" and "\<not> missingRequired ops reqBody"
    and "promptFor ops reqBody = Inr prompt"
    and "upstream [] (geminiRequest apiKey prompt) = Resolved aiRes"
    and "data aiRes = JObj d"
    and "map_of d (asc ''candidates'') = Some (JArr (JObj c # cs))"
    and "map_of c (asc ''content'') = Some (JObj ct)"
    and "map_of ct (asc ''parts'') = Some (JArr (JObj pt # pts))"
    and "map_of pt (asc ''text'') = Some (JStr [])"
  shows "reply (analyzeSoil ops apiKey upstream reqBody) =
     Some (HttpResponse 200
       (JObj [(asc ''success'', JBool True),
              (asc ''crop'', getField reqBody (asc ''cropName'')),
              (asc ''analysis'', JStr (asc ''No response from Gemini.''))]))
     \<and> asc ''No response from Gemini.'' \<noteq> []"
  using reply_resolved [where upstream = upstream, OF assms(1,2,3,4)] firstText_nested [OF assms(6,7,8,9)] assms(5)
  by (simp add: orElse_def)

theorem empty_text_falls_back_witness:
  "reply (analyzeSoil writtenNumber (asc ''key'')
      (always (Resolved (AxiosResponse 200
         (JObj [(asc ''candidates'',
            JArr [JObj [(asc ''content'',
                    JObj [(asc ''parts'', JArr [JObj [(asc ''text'', JStr [])]]),
                          (asc ''role'', JStr (asc ''model''))]),
                  (asc ''finishReason'', JStr (asc ''STOP''))]])]))))
      riceSample) =
     Some (HttpResponse 200
       (JObj [(asc ''success'', JBool True),
              (asc ''crop'', JStr (asc ''rice'')),
              (asc ''analysis'', JStr (asc ''No response from Gemini.''))]))"
  using empty_text_falls_back [where ops = writtenNumber and apiKey = "asc ''key''" and
      reqBody = riceSample and prompt = ricePrompt and
      upstream = "always (Resolved (AxiosResponse 200
         (JObj [(asc ''candidates'',
            JArr [JObj [(asc ''content'',
                    JObj [(asc ''parts'', JArr [JObj [(asc ''text'', JStr [])]]),
                          (asc ''role'', JStr (asc ''model''))]),
                  (asc ''finishReason'', JStr (asc ''STOP''))]])])))" and
      aiRes = "AxiosResponse 200
         (JObj [(asc ''candidates'',
            JArr [JObj [(asc ''content'',
                    JObj [(asc ''parts'', JArr [JObj [(asc ''text'', JStr [])]]),
                          (asc ''role'', JStr (asc ''model''))]),
                  (asc ''finishReason'', JStr (asc ''STOP''))]])])" and
      d = "[(asc ''candidates'',
            JArr [JObj [(asc ''content'',
                    JObj [(asc ''parts'', JArr [JObj [(asc ''text'', JStr [])]]),
                          (asc ''role'', JStr (asc ''model''))]),
                  (asc ''finishReason'', JStr (asc ''STOP''))]])]" and
      c = "[(asc ''content'',
                    JObj [(asc ''parts'', JArr [JObj [(asc ''text'', JStr [])]]),
                          (asc ''role'', JStr (asc ''model''))]),
                  (asc ''finishReason'', JStr (asc ''STOP''))]" and cs = "[]" and
      ct = "[(asc ''parts'', JArr [JObj [(asc ''text'', JStr [])]]),
                          (asc ''role'', JStr (asc ''model''))]" and
      pt = "[(asc ''text'', JStr [])]" and pts = "[]"]
  by (simp add: riceSample_valid always_def)

text \<open>
  Claim C4, as amended. For every valid payload whose upstream call succeeds with a
  well-formed nested body (a first candidate, its content, a first part, its text) whose
  text is truthy (a non-empty string), \<^verbatim>\<open>analysis\<close> is exactly that text. The claim as
  stated asks only that the text be present; the theorem after the witness shows it false
  for the text \<^verbatim>\<open>""\<close>, which is present and is answered by the fallback.
\<close>

theorem truthy_text_is_analysis:
  assumes "\<not> nullish reqBody" and "\<not> missingRequired ops reqBody"
    and "promptFor ops reqBody = Inr prompt"
    and "upstream [] (geminiRequest apiKey prompt) = Resolved aiRes"
    and "data aiRes = JObj d"
    and "map_of d (asc ''candidates'') = Some (JArr (JObj c # cs))"
    and "map_of c (asc ''content'') = Some (JObj ct)"
    and "map_of ct (asc ''parts'') = Some (JArr (JObj pt # pts))"
    and "map_of pt (asc ''text'') = Some t"
    and "toBoolean ops t"
  shows "reply (analyzeSoil ops apiKey upstream reqBody) =
     Some (HttpResponse 200
       (JObj [(asc ''success'', JBool True),
              (asc ''crop'', getField reqBody (asc ''cropName'')),
              (asc ''analysis'', t)]))"
  using reply_resolved [where upstream = upstream, OF assms(1,2,3,4)] firstText_nested [OF assms(6,7,8,9)] assms(5,10)
  by (simp add: orElse_def)

theorem truthy_text_is_analysis_witness:
  "reply (analyzeSoil writtenNumber (asc ''key'')
      (always (Resolved (AxiosResponse 200
         (JObj [(asc ''candidates'',
            JArr [JObj [(asc ''content'',
                    JObj [(asc ''parts'',
                       JArr [JObj [(asc ''text'', JStr (asc ''**Summary:** suitable''))],
                             JObj [(asc ''text'', JStr (asc ''second part''))]])])],
                  JObj [(asc ''content'', JNull)]])]))))
      riceSample) =
     Some (HttpResponse 200
       (JObj [(asc ''success'', JBool True),
              (asc ''crop'', JStr (asc ''rice'')),
              (asc ''analysis'', JStr (asc ''**Summary:** suitable''))]))"
  using truthy_text_is_analysis [where ops = writtenNumber and apiKey = "asc ''key''" and
      reqBody = riceSample and prompt = ricePrompt and
      upstream = "always (Resolved (AxiosResponse 200
         (JObj [(asc ''candidates'',
            JArr [JObj [(asc ''content'',
                    JObj [(asc ''parts'',
                       JArr [JObj [(asc ''text'', JStr (asc ''**Summary:** suitable''))],
                             JObj [(asc ''text'', JStr (asc ''second part''))]])])],
                  JObj [(asc ''content'', JNull)]])])))" and
      aiRes = "AxiosResponse 200
         (JObj [(asc ''candidates'',
            JArr [JObj [(asc ''content'',
                    JObj [(asc ''parts'',
                       JArr [JObj [(asc ''text'', JStr (asc ''**Summary:** suitable''))],
                             JObj [(asc ''text'', JStr (asc ''second part''))]])])],
                  JObj [(asc ''content'', JNull)]])])" and
      d = "[(asc ''candidates'',
            JArr [JObj [(asc ''content'',
                    JObj [(asc ''parts'',
                       JArr [JObj [(asc ''text'', JStr (asc ''**Summary:** suitable''))],
                             JObj [(asc ''text'', JStr (asc ''second part''))]])])],
                  JObj [(asc ''content'', JNull)]])]" and
      c = "[(asc ''content'',
                    JObj [(asc ''parts'',
                       JArr [JObj [(asc ''text'', JStr (asc ''**Summary:** suitable''))],
                             JObj [(asc ''text'', JStr (asc ''second part''))]])])]" and
      cs = "[JObj [(asc ''content'', JNull)]]" and
      ct = "[(asc ''parts'',
                       JArr [JObj [(asc ''text'', JStr (asc ''**Summary:** suitable''))],
                             JObj [(asc ''text'', JStr (asc ''second part''))]])]" and
      pt = "[(asc ''text'', JStr (asc ''**Summary:** suitable''))]" and
      pts = "[JObj [(asc ''text'', JStr (asc ''second part''))]]" and
      t = "JStr (asc ''**Summary:** suitable'')"]
  by (simp add: riceSample_valid always_def)

text \<open>
  The claim C4 as stated fails: the upstream body \<open>generated (JStr [])\<close> is well-formed and
  its text is present (the empty string), yet \<^verbatim>\<open>analysis\<close> is the fallback string.
\<close>

theorem present_empty_text_is_not_relayed:
  "firstText (generated (JStr [])) = (JStr [] :: jsstring jsval)
   \<and> reply (analyzeSoil writtenNumber (asc ''key'')
        (always (Resolved (AxiosResponse 200 (generated (JStr []))))) riceSample) =
     Some (HttpResponse 200
       (JObj [(asc ''success'', JBool True),
              (asc ''crop'', JStr (asc ''rice'')),
              (asc ''analysis'', JStr (asc ''No response from Gemini.''))]))
   \<and> JStr (asc ''No response from Gemini.'') \<noteq> (JStr [] :: jsstring jsval)"
  by (simp add: riceSample_run firstText_generated orElse_def)

subsection \<open>Validation and the prompt\<close>

text \<open>
  Claim C1, as amended. For every payload (a parsed JSON body, so \<^verbatim>\<open>req.body\<close> is neither
  \<^verbatim>\<open>undefined\<close> nor \<^verbatim>\<open>null\<close>): if any one of the nine required fields is absent, the route
  answers HTTP 400 with the body \<^verbatim>\<open>{error: "Missing required fields in the request
  body."}\<close> and sends nothing; and if the eight measurements are present (defined: the
  number 0 counts), \<^verbatim>\<open>cropName\<close> is truthy and each of the nine values converts to a string,
  validation passes, the template yields a prompt and that prompt is forwarded in one
  upstream request. Numbers and strings always convert, so the last conjunct is the claim
  on payloads of the specified types: eight numbers and a non-empty string.
\<close>

theorem missing_field_answers_400_else_forwarded:
  assumes "\<not> nullish reqBody"
  shows
    "((\<exists>f \<in> set requiredFields. getField reqBody f = JUndefined) \<longrightarrow>
        analyzeSoil ops apiKey upstream reqBody =
          Run [] (Some (HttpResponse 400
            (JObj [(asc ''error'', JStr (asc ''Missing required fields in the request body.''))]))))
     \<and> ((\<forall>f \<in> set measurementFields. getField reqBody f \<noteq> JUndefined) \<and>
         toBoolean ops (getField reqBody (asc ''cropName'')) \<and>
         (\<forall>f \<in> set requiredFields. \<exists>s. toStringJS ops (getField reqBody f) = Inr s) \<longrightarrow>
           \<not> missingRequired ops reqBody \<and>
           (\<exists>prompt. promptFor ops reqBody = Inr prompt \<and>
              calls (analyzeSoil ops apiKey upstream reqBody) = [geminiRequest apiKey prompt]))
     \<and> ((\<forall>f \<in> set measurementFields. \<exists>n. getField reqBody f = JNum n) \<and>
         (\<exists>s. s \<noteq> [] \<and> getField reqBody (asc ''cropName'') = JStr s) \<longrightarrow>
           \<not> missingRequired ops reqBody \<and>
           (\<exists>prompt. promptFor ops reqBody = Inr prompt \<and>
              calls (analyzeSoil ops apiKey upstream reqBody) = [geminiRequest apiKey prompt]))"
proof (intro conjI impI)
  assume "\<exists>f \<in> set requiredFields. getField reqBody f = JUndefined"
  then have "missingRequired ops reqBody"
    by (blast intro: missingRequired_absent)
  with assms show "analyzeSoil ops apiKey upstream reqBody =
      Run [] (Some (HttpResponse 400
        (JObj [(asc ''error'', JStr (asc ''Missing required fields in the request body.''))])))"
    by (rule analyzeSoil_missing)
next
  assume a: "(\<forall>f \<in> set measurementFields. getField reqBody f \<noteq> JUndefined) \<and>
         toBoolean ops (getField reqBody (asc ''cropName'')) \<and>
         (\<forall>f \<in> set requiredFields. \<exists>s. toStringJS ops (getField reqBody f) = Inr s)"
  then show v: "\<not> missingRequired ops reqBody"
    by (simp add: missingRequired_iff)
  from a obtain prompt where "promptFor ops reqBody = Inr prompt"
    using promptFor_convertible by blast
  with assms v show "\<exists>prompt. promptFor ops reqBody = Inr prompt \<and>
      calls (analyzeSoil ops apiKey upstream reqBody) = [geminiRequest apiKey prompt]"
    by (simp add: calls_forwarded)
next
  assume a: "(\<forall>f \<in> set measurementFields. \<exists>n. getField reqBody f = JNum n) \<and>
         (\<exists>s. s \<noteq> [] \<and> getField reqBody (asc ''cropName'') = JStr s)"
  then show v: "\<not> missingRequired ops reqBody"
    by (auto simp add: missingRequired_iff)
  from a have "\<forall>f \<in> set requiredFields. \<exists>s. toStringJS ops (getField reqBody f) = Inr s"
    by (auto simp add: requiredFields_def)
  then obtain prompt where "promptFor ops reqBody = Inr prompt"
    using promptFor_convertible by blast
  with assms v show "\<exists>prompt. promptFor ops reqBody = Inr prompt \<and>
      calls (analyzeSoil ops apiKey upstream reqBody) = [geminiRequest apiKey prompt]"
    by (simp add: calls_forwarded)
qed

theorem missing_field_answers_400_else_forwarded_witness:
  "analyzeSoil writtenNumber (asc ''key'') (always Pending)
     (JObj [(asc ''temperature'', JNum (asc ''25'')), (asc ''cropName'', JStr (asc ''rice''))]) =
     Run [] (Some (HttpResponse 400
       (JObj [(asc ''error'', JStr (asc ''Missing required fields in the request body.''))])))
   \<and> calls (analyzeSoil writtenNumber (asc ''key'') (always Pending)
       (soilSample (JNum (asc ''0'')) (JNum (asc ''60'')) (JNum (asc ''40'')) (JNum (asc ''50''))
          (JNum (asc ''30'')) (JNum (asc ''20'')) (JNum (asc ''6.5'')) (JNum (asc ''100''))
          (JStr (asc ''rice'')))) =
     [geminiRequest (asc ''key'')
        (promptText (asc ''rice'') (asc ''0'') (asc ''60'') (asc ''40'') (asc ''50'') (asc ''30'')
           (asc ''20'') (asc ''6.5'') (asc ''100'') (asc ''rice''))]"
proof -
  let ?short = "JObj [(asc ''temperature'', JNum (asc ''25'')), (asc ''cropName'', JStr (asc ''rice''))]
      :: jsstring jsval"
  let ?zero = "soilSample (JNum (asc ''0'')) (JNum (asc ''60'')) (JNum (asc ''40''))
      (JNum (asc ''50'')) (JNum (asc ''30'')) (JNum (asc ''20'')) (JNum (asc ''6.5''))
      (JNum (asc ''100'')) (JStr (asc ''rice'')) :: jsstring jsval"
  have s1: "\<not> nullish ?short" by (simp add: nullish_def)
  have s2: "\<exists>f \<in> set requiredFields. getField ?short f = JUndefined"
    by (simp add: requiredFields_def measurementFields_def)
  have z1: "\<not> nullish ?zero" by (rule nullish_soilSample)
  have z2: "(\<forall>f \<in> set measurementFields. \<exists>n. getField ?zero f = JNum n) \<and>
         (\<exists>s. s \<noteq> [] \<and> getField ?zero (asc ''cropName'') = JStr s)"
    by (simp add: measurementFields_def getField_soilSample)
  have z3: "promptFor writtenNumber ?zero =
      Inr (promptText (asc ''rice'') (asc ''0'') (asc ''60'') (asc ''40'') (asc ''50'') (asc ''30'')
           (asc ''20'') (asc ''6.5'') (asc ''100'') (asc ''rice''))"
    by (simp add: promptFor_soilSample buildPrompt_Inr writtenNumber_def)
  show ?thesis
    using
      missing_field_answers_400_else_forwarded [OF s1, of writtenNumber "asc ''key''" "always Pending"]
      missing_field_answers_400_else_forwarded [OF z1, of writtenNumber "asc ''key''" "always Pending"]
      s2 z2 z3
    by simp
qed

text \<open>
  The claim C1 as stated fails: in the payload below all nine fields are present and
  \<^verbatim>\<open>cropName\<close> is \<^verbatim>\<open>"rice"\<close>, but \<^verbatim>\<open>temperature\<close> is the JSON object \<^verbatim>\<open>{"toString": 1}\<close>.
  Validation passes, the template literal throws a \<^verbatim>\<open>TypeError\<close> when it converts that object,
  and the route answers HTTP 500 without forwarding anything.
\<close>

theorem present_fields_without_prompt:
  "list_all
     (\<lambda>f. getField
        (soilSample (JObj [(asc ''toString'', JNum (asc ''1''))]) (JNum (asc ''60''))
           (JNum (asc ''40'')) (JNum (asc ''50'')) (JNum (asc ''30'')) (JNum (asc ''20''))
           (JNum (asc ''6.5'')) (JNum (asc ''100'')) (JStr (asc ''rice'')) :: jsstring jsval) f
        \<noteq> JUndefined)
     requiredFields
   \<and> analyzeSoil writtenNumber (asc ''key'') (always Pending)
        (soilSample (JObj [(asc ''toString'', JNum (asc ''1''))]) (JNum (asc ''60''))
           (JNum (asc ''40'')) (JNum (asc ''50'')) (JNum (asc ''30'')) (JNum (asc ''20''))
           (JNum (asc ''6.5'')) (JNum (asc ''100'')) (JStr (asc ''rice''))) =
       Run [] (Some (HttpResponse 500
         (JObj [(asc ''error'',
                   JStr (asc ''Internal Server Error. Please check your request or server logs.'')),
                (asc ''message'', JStr (asc ''Cannot convert object to primitive value''))])))"
  by (simp add: requiredFields_def measurementFields_def getField_soilSample
      analyzeSoil_unfold nullish_soilSample missingRequired_soilSample
      promptFor_soilSample buildPrompt_def andThen_def catchBlock_def typeError_def
      notPrimitive_def)

text \<open>
  Claim C10, as amended. Validation tests the eight measurements only for not being
  \<^verbatim>\<open>undefined\<close>, and \<^verbatim>\<open>cropName\<close> for being truthy: a \<^verbatim>\<open>cropName\<close> equal to \<^verbatim>\<open>""\<close>, \<^verbatim>\<open>false\<close> or
  a falsy number such as 0 is answered with HTTP 400. A measurement that is present with
  the value \<^verbatim>\<open>null\<close>, a string or a boolean passes validation, and whenever each of the nine
  values converts to a string the prompt forwarded is the template over those strings
  (\<^verbatim>\<open>null\<close> for \<^verbatim>\<open>null\<close>, a string as it is, \<^verbatim>\<open>true\<close> or \<^verbatim>\<open>false\<close> for a boolean). A value
  whose conversion throws (an object with an own \<^verbatim>\<open>toString\<close> property, or an array holding
  a value whose conversion throws) is defined and truthy, so it passes the test of
  whichever field holds it; when a request that passes validation holds such a value in
  one of the nine fields, no prompt is built, nothing is sent and the route answers
  HTTP 500 with the message \<^verbatim>\<open>Cannot convert object to primitive value\<close>.
\<close>

theorem validation_tests_definedness_and_truthy_crop:
  "(missingRequired ops reqBody \<longleftrightarrow>
        (\<exists>f \<in> set measurementFields. getField reqBody f = JUndefined) \<or>
        \<not> toBoolean ops (getField reqBody (asc ''cropName'')))
     \<and> (getField reqBody (asc ''cropName'') = JStr [] \<or>
         getField reqBody (asc ''cropName'') = JBool False \<or>
         (\<exists>z. getField reqBody (asc ''cropName'') = JNum z \<and> \<not> numToBoolean ops z) \<longrightarrow>
           analyzeSoil ops apiKey upstream reqBody =
             Run [] (Some (HttpResponse 400
               (JObj [(asc ''error'', JStr (asc ''Missing required fields in the request body.''))]))))
     \<and> (\<not> missingRequired ops reqBody \<and>
         toStringJS ops (getField reqBody (asc ''cropName'')) = Inr c \<and>
         toStringJS ops (getField reqBody (asc ''temperature'')) = Inr t \<and>
         toStringJS ops (getField reqBody (asc ''humidity'')) = Inr h \<and>
         toStringJS ops (getField reqBody (asc ''moisture'')) = Inr m \<and>
         toStringJS ops (getField reqBody (asc ''nitrogen'')) = Inr n \<and>
         toStringJS ops (getField reqBody (asc ''phosphorus'')) = Inr p \<and>
         toStringJS ops (getField reqBody (asc ''potassium'')) = Inr k \<and>
         toStringJS ops (getField reqBody (asc ''ph'')) = Inr a \<and>
         toStringJS ops (getField reqBody (asc ''rainfall'')) = Inr r \<longrightarrow>
           calls (analyzeSoil ops apiKey upstream reqBody) =
             [geminiRequest apiKey (promptText c t h m n p k a r c)])
     \<and> (\<not> missingRequired ops reqBody \<and>
         (\<exists>f \<in> set requiredFields. \<exists>e. toStringJS ops (getField reqBody f) = Inl e) \<longrightarrow>
           promptFor ops reqBody =
             Inl (JsError (asc ''Cannot convert object to primitive value'') None) \<and>
           analyzeSoil ops apiKey upstream reqBody =
             Run [] (Some (HttpResponse 500
               (JObj [(asc ''error'',
                         JStr (asc ''Internal Server Error. Please check your request or server logs.'')),
                      (asc ''message'', JStr (asc ''Cannot convert object to primitive value''))]))))
     \<and> (toStringJS ops w = Inl err \<longrightarrow> w \<noteq> JUndefined \<and> toBoolean ops w)
     \<and> (map_of kvs (asc ''toString'') \<noteq> None \<longrightarrow>
           toStringJS ops (JObj kvs) =
             Inl (JsError (asc ''Cannot convert object to primitive value'') None))
     \<and> ((\<exists>x \<in> set xs. \<exists>e. toStringJS ops x = Inl e) \<longrightarrow>
           toStringJS ops (JArr xs) =
             Inl (JsError (asc ''Cannot convert object to primitive value'') None))
     \<and> toStringJS ops JNull = Inr (asc ''null'')
     \<and> toStringJS ops (JStr s) = Inr s
     \<and> toStringJS ops (JBool b) = Inr (if b then asc ''true'' else asc ''false'')"
proof (intro conjI impI)
  show "missingRequired ops reqBody \<longleftrightarrow>
        (\<exists>f \<in> set measurementFields. getField reqBody f = JUndefined) \<or>
        \<not> toBoolean ops (getField reqBody (asc ''cropName''))"
    by (rule missingRequired_iff)
next
  assume c: "getField reqBody (asc ''cropName'') = JStr [] \<or>
         getField reqBody (asc ''cropName'') = JBool False \<or>
         (\<exists>z. getField reqBody (asc ''cropName'') = JNum z \<and> \<not> numToBoolean ops z)"
  then have "\<not> toBoolean ops (getField reqBody (asc ''cropName''))"
    by auto
  then have "missingRequired ops reqBody"
    by (simp add: missingRequired_iff)
  moreover have "\<not> nullish reqBody"
    using c by (auto simp add: getField_nullish)
  ultimately show "analyzeSoil ops apiKey upstream reqBody =
      Run [] (Some (HttpResponse 400
        (JObj [(asc ''error'', JStr (asc ''Missing required fields in the request body.''))])))"
    by (simp add: analyzeSoil_missing)
next
  assume a: "\<not> missingRequired ops reqBody \<and>
         toStringJS ops (getField reqBody (asc ''cropName'')) = Inr c \<and>
         toStringJS ops (getField reqBody (asc ''temperature'')) = Inr t \<and>
         toStringJS ops (getField reqBody (asc ''humidity'')) = Inr h \<and>
         toStringJS ops (getField reqBody (asc ''moisture'')) = Inr m \<and>
         toStringJS ops (getField reqBody (asc ''nitrogen'')) = Inr n \<and>
         toStringJS ops (getField reqBody (asc ''phosphorus'')) = Inr p \<and>
         toStringJS ops (getField reqBody (asc ''potassium'')) = Inr k \<and>
         toStringJS ops (getField reqBody (asc ''ph'')) = Inr a \<and>
         toStringJS ops (getField reqBody (asc ''rainfall'')) = Inr r"
  then have "promptFor ops reqBody = Inr (promptText c t h m n p k a r c)"
    by (intro promptFor_Inr) simp_all
  moreover have "\<not> nullish reqBody"
    using a missingRequired_nullish by blast
  ultimately show "calls (analyzeSoil ops apiKey upstream reqBody) =
      [geminiRequest apiKey (promptText c t h m n p k a r c)]"
    using a by (simp add: calls_forwarded)
next
  assume a: "\<not> missingRequired ops reqBody \<and>
         (\<exists>f \<in> set requiredFields. \<exists>e. toStringJS ops (getField reqBody f) = Inl e)"
  then have p: "promptFor ops reqBody = Inl (typeError notPrimitive)"
    using promptFor_throws by blast
  then show "promptFor ops reqBody =
      Inl (JsError (asc ''Cannot convert object to primitive value'') None)"
    by (simp add: typeError_def notPrimitive_def)
  have "\<not> nullish reqBody"
    using a missingRequired_nullish by blast
  with a p have "analyzeSoil ops apiKey upstream reqBody =
      Run [] (Some (catchBlock ops (typeError notPrimitive)))"
    by (simp add: analyzeSoil_throws)
  then show "analyzeSoil ops apiKey upstream reqBody =
      Run [] (Some (HttpResponse 500
        (JObj [(asc ''error'',
                  JStr (asc ''Internal Server Error. Please check your request or server logs.'')),
               (asc ''message'', JStr (asc ''Cannot convert object to primitive value''))])))"
    by (simp add: catchBlock_typeError notPrimitive_def)
next
  assume "toStringJS ops w = Inl err"
  then show "w \<noteq> JUndefined" and "toBoolean ops w"
    using toStringJS_throws_present by blast+
next
  assume "map_of kvs (asc ''toString'') \<noteq> None"
  then show "toStringJS ops (JObj kvs) =
      Inl (JsError (asc ''Cannot convert object to primitive value'') None)"
    by (simp add: typeError_def notPrimitive_def)
next
  assume "\<exists>x \<in> set xs. \<exists>e. toStringJS ops x = Inl e"
  then obtain e' where "joinJS ops xs = Inl e'"
    using joinJS_member_throws by blast
  then have "toStringJS ops (JArr xs) = Inl (typeError notPrimitive)"
    using toStringJS_throws_typeError(2) by fastforce
  then show "toStringJS ops (JArr xs) =
      Inl (JsError (asc ''Cannot convert object to primitive value'') None)"
    by (simp add: typeError_def notPrimitive_def)
qed simp_all

theorem validation_tests_definedness_and_truthy_crop_witness:
  "calls (analyzeSoil writtenNumber (asc ''key'') (always Pending)
       (soilSample JNull (JStr (asc ''wet'')) (JNum (asc ''40'')) (JNum (asc ''50''))
          (JNum (asc ''30'')) (JNum (asc ''20'')) (JBool True) (JNum (asc ''100''))
          (JStr (asc ''rice'')))) =
     [geminiRequest (asc ''key'')
        (promptText (asc ''rice'') (asc ''null'') (asc ''wet'') (asc ''40'') (asc ''50'')
           (asc ''30'') (asc ''20'') (asc ''true'') (asc ''100'') (asc ''rice''))]
   \<and> analyzeSoil writtenNumber (asc ''key'') (always Pending)
       (soilSample (JNum (asc ''25'')) (JNum (asc ''60'')) (JNum (asc ''40'')) (JNum (asc ''50''))
          (JNum (asc ''30'')) (JNum (asc ''20'')) (JNum (asc ''6.5'')) (JNum (asc ''100''))
          (JNum (asc ''0''))) =
     Run [] (Some (HttpResponse 400
       (JObj [(asc ''error'', JStr (asc ''Missing required fields in the request body.''))])))
   \<and> analyzeSoil writtenNumber (asc ''key'') (always Pending)
       (soilSample (JNum (asc ''25'')) (JNum (asc ''60'')) (JNum (asc ''40'')) (JNum (asc ''50''))
          (JNum (asc ''30'')) (JNum (asc ''20'')) (JNum (asc ''6.5'')) (JNum (asc ''100''))
          (JStr [])) =
     Run [] (Some (HttpResponse 400
       (JObj [(asc ''error'', JStr (asc ''Missing required fields in the request body.''))])))
   \<and> analyzeSoil writtenNumber (asc ''key'') (always Pending)
       (soilSample (JNum (asc ''25''))
          (JObj [(asc ''unit'', JStr (asc ''%'')), (asc ''toString'', JStr (asc ''60''))])
          (JNum (asc ''40'')) (JNum (asc ''50'')) (JNum (asc ''30'')) (JNum (asc ''20''))
          (JNum (asc ''6.5'')) (JNum (asc ''100'')) (JStr (asc ''rice''))) =
     Run [] (Some (HttpResponse 500
       (JObj [(asc ''error'',
                 JStr (asc ''Internal Server Error. Please check your request or server logs.'')),
              (asc ''message'', JStr (asc ''Cannot convert object to primitive value''))])))"
proof -
  let ?odd = "soilSample JNull (JStr (asc ''wet'')) (JNum (asc ''40'')) (JNum (asc ''50''))
      (JNum (asc ''30'')) (JNum (asc ''20'')) (JBool True) (JNum (asc ''100''))
      (JStr (asc ''rice'')) :: jsstring jsval"
  let ?zero = "soilSample (JNum (asc ''25'')) (JNum (asc ''60'')) (JNum (asc ''40''))
      (JNum (asc ''50'')) (JNum (asc ''30'')) (JNum (asc ''20'')) (JNum (asc ''6.5''))
      (JNum (asc ''100'')) (JNum (asc ''0'')) :: jsstring jsval"
  let ?empty = "soilSample (JNum (asc ''25'')) (JNum (asc ''60'')) (JNum (asc ''40''))
      (JNum (asc ''50'')) (JNum (asc ''30'')) (JNum (asc ''20'')) (JNum (asc ''6.5''))
      (JNum (asc ''100'')) (JStr []) :: jsstring jsval"
  let ?throwing = "soilSample (JNum (asc ''25''))
      (JObj [(asc ''unit'', JStr (asc ''%'')), (asc ''toString'', JStr (asc ''60''))])
      (JNum (asc ''40'')) (JNum (asc ''50'')) (JNum (asc ''30'')) (JNum (asc ''20''))
      (JNum (asc ''6.5'')) (JNum (asc ''100'')) (JStr (asc ''rice'')) :: jsstring jsval"
  have t1: "\<not> missingRequired writtenNumber ?throwing"
    by (simp add: missingRequired_soilSample)
  have t2: "\<exists>f \<in> set requiredFields.
      \<exists>e. toStringJS writtenNumber (getField ?throwing f) = Inl e"
    by (simp add: requiredFields_def measurementFields_def getField_soilSample)
  have thrown: "analyzeSoil writtenNumber (asc ''key'') (always Pending) ?throwing =
      Run [] (Some (HttpResponse 500
        (JObj [(asc ''error'',
                  JStr (asc ''Internal Server Error. Please check your request or server logs.'')),
               (asc ''message'', JStr (asc ''Cannot convert object to primitive value''))])))"
    using
      validation_tests_definedness_and_truthy_crop [
        where ops = writtenNumber and apiKey = "asc ''key''" and upstream = "always Pending" and
        reqBody = ?throwing]
      t1 t2
    by blast
  have o: "\<not> missingRequired writtenNumber ?odd"
    by (simp add: missingRequired_soilSample)
  have z: "\<not> numToBoolean writtenNumber (asc ''0'')"
    by (simp add: writtenNumber_def)
  show ?thesis
    using
      validation_tests_definedness_and_truthy_crop [
        where ops = writtenNumber and apiKey = "asc ''key''" and upstream = "always Pending" and
        reqBody = ?odd and c = "asc ''rice''" and t = "asc ''null''" and h = "asc ''wet''" and
        m = "asc ''40''" and n = "asc ''50''" and p = "asc ''30''" and k = "asc ''20''" and
        a = "asc ''true''" and r = "asc ''100''"]
      validation_tests_definedness_and_truthy_crop [
        where ops = writtenNumber and apiKey = "asc ''key''" and upstream = "always Pending" and
        reqBody = ?zero]
      validation_tests_definedness_and_truthy_crop [
        where ops = writtenNumber and apiKey = "asc ''key''" and upstream = "always Pending" and
        reqBody = ?empty]
      o z thrown
    by (simp add: getField_soilSample writtenNumber_def)
qed

text \<open>
  The claim C10 as stated fails for "any non-numeric value": \<^verbatim>\<open>ph\<close> below is the array
  \<^verbatim>\<open>[{"toString": null}]\<close>. It passes validation, but it is not interpolated: converting it
  throws, no prompt exists and the route answers HTTP 500.
\<close>

theorem present_value_not_interpolated:
  "getField
     (soilSample (JNum (asc ''25'')) (JNum (asc ''60'')) (JNum (asc ''40'')) (JNum (asc ''50''))
        (JNum (asc ''30'')) (JNum (asc ''20'')) (JArr [JObj [(asc ''toString'', JNull)]])
        (JNum (asc ''100'')) (JStr (asc ''rice'')) :: jsstring jsval) (asc ''ph'') =
     JArr [JObj [(asc ''toString'', JNull)]]
   \<and> \<not> missingRequired writtenNumber
       (soilSample (JNum (asc ''25'')) (JNum (asc ''60'')) (JNum (asc ''40'')) (JNum (asc ''50''))
          (JNum (asc ''30'')) (JNum (asc ''20'')) (JArr [JObj [(asc ''toString'', JNull)]])
          (JNum (asc ''100'')) (JStr (asc ''rice'')))
   \<and> promptFor writtenNumber
       (soilSample (JNum (asc ''25'')) (JNum (asc ''60'')) (JNum (asc ''40'')) (JNum (asc ''50''))
          (JNum (asc ''30'')) (JNum (asc ''20'')) (JArr [JObj [(asc ''toString'', JNull)]])
          (JNum (asc ''100'')) (JStr (asc ''rice''))) =
       Inl (JsError (asc ''Cannot convert object to primitive value'') None)
   \<and> analyzeSoil writtenNumber (asc ''key'') (always Pending)
       (soilSample (JNum (asc ''25'')) (JNum (asc ''60'')) (JNum (asc ''40'')) (JNum (asc ''50''))
          (JNum (asc ''30'')) (JNum (asc ''20'')) (JArr [JObj [(asc ''toString'', JNull)]])
          (JNum (asc ''100'')) (JStr (asc ''rice''))) =
       Run [] (Some (HttpResponse 500
         (JObj [(asc ''error'',
                   JStr (asc ''Internal Server Error. Please check your request or server logs.'')),
                (asc ''message'', JStr (asc ''Cannot convert object to primitive value''))])))"
proof -
  have "toStringJS writtenNumber (JArr [JObj [(asc ''toString'', JNull)]]) =
      Inl (JsError (asc ''Cannot convert object to primitive value'') None)"
    by (simp add: nullish_def typeError_def notPrimitive_def)
  then show ?thesis
    by (simp add: getField_soilSample analyzeSoil_unfold nullish_soilSample
        missingRequired_soilSample promptFor_soilSample buildPrompt_def andThen_def
        catchBlock_def writtenNumber_def)
qed

text \<open>
  Claim C6. The prompt is a function of the nine destructured properties alone: two
  bodies that agree on them give the same prompt (or the same failure to build one), and
  the same outbound requests, whatever else the bodies hold and however the upstream
  behaves. The route reads no clock and no random source, so the model has none.
\<close>

theorem prompt_depends_on_the_nine_fields_only:
  assumes "\<forall>f \<in> set requiredFields. getField b1 f = getField b2 f"
  shows "promptFor ops b1 = promptFor ops b2 \<and>
         calls (analyzeSoil ops apiKey upstream1 b1) = calls (analyzeSoil ops apiKey upstream2 b2)"
proof
  show p: "promptFor ops b1 = promptFor ops b2" by (rule promptFor_cong(1) [OF assms])
  have m: "missingRequired ops b1 = missingRequired ops b2" by (rule promptFor_cong(2) [OF assms])
  have t: "getField b1 (asc ''temperature'') = getField b2 (asc ''temperature'')"
    using assms by (simp add: requiredFields_def measurementFields_def)
  have n1: "nullish b1 \<Longrightarrow> missingRequired ops b2"
    using t by (simp add: getField_nullish missingRequired_def)
  have n2: "nullish b2 \<Longrightarrow> missingRequired ops b1"
    using t by (simp add: getField_nullish missingRequired_def)
  show "calls (analyzeSoil ops apiKey upstream1 b1) = calls (analyzeSoil ops apiKey upstream2 b2)"
    using p m n1 n2 by (auto simp add: analyzeSoil_unfold split: sum.splits)
qed

theorem prompt_depends_on_the_nine_fields_only_witness:
  "promptFor writtenNumber
     (JObj [(asc ''cropName'', JStr (asc ''rice'')), (asc ''requestId'', JStr (asc ''a1'')),
            (asc ''rainfall'', JNum (asc ''100'')), (asc ''ph'', JNum (asc ''6.5'')),
            (asc ''potassium'', JNum (asc ''20'')), (asc ''phosphorus'', JNum (asc ''30'')),
            (asc ''nitrogen'', JNum (asc ''50'')), (asc ''moisture'', JNum (asc ''40'')),
            (asc ''humidity'', JNum (asc ''60'')), (asc ''temperature'', JNum (asc ''25''))]) =
     Inr ricePrompt
   \<and> calls (analyzeSoil writtenNumber (asc ''key'') (always Pending)
     (JObj [(asc ''cropName'', JStr (asc ''rice'')), (asc ''requestId'', JStr (asc ''a1'')),
            (asc ''rainfall'', JNum (asc ''100'')), (asc ''ph'', JNum (asc ''6.5'')),
            (asc ''potassium'', JNum (asc ''20'')), (asc ''phosphorus'', JNum (asc ''30'')),
            (asc ''nitrogen'', JNum (asc ''50'')), (asc ''moisture'', JNum (asc ''40'')),
            (asc ''humidity'', JNum (asc ''60'')), (asc ''temperature'', JNum (asc ''25''))])) =
     [geminiRequest (asc ''key'') ricePrompt]"
proof -
  have "\<forall>f \<in> set requiredFields.
      getField riceSample f =
      getField (JObj [(asc ''cropName'', JStr (asc ''rice'')), (asc ''requestId'', JStr (asc ''a1'')),
            (asc ''rainfall'', JNum (asc ''100'')), (asc ''ph'', JNum (asc ''6.5'')),
            (asc ''potassium'', JNum (asc ''20'')), (asc ''phosphorus'', JNum (asc ''30'')),
            (asc ''nitrogen'', JNum (asc ''50'')), (asc ''moisture'', JNum (asc ''40'')),
            (asc ''humidity'', JNum (asc ''60'')), (asc ''temperature'', JNum (asc ''25''))]) f"
    by (simp add: requiredFields_def measurementFields_def riceSample_def getField_soilSample)
  from prompt_depends_on_the_nine_fields_only [OF this, of writtenNumber "asc ''key''"
      "always (Rejected (JsError (asc ''connect ETIMEDOUT'') None))" "always Pending"]
  show ?thesis
    by (simp add: riceSample_valid riceSample_run)
qed

subsection \<open>Outbound calls\<close>

text \<open>
  Claim C7, as amended. Every run makes at most one upstream call. A request without a
  body to destructure or failing validation makes none. A request that passes validation
  makes exactly one, carrying the prompt, when the template evaluates, and none when the
  template throws. The calls made do not depend on how the upstream answers: no outcome of
  the first call leads to a second.
\<close>

theorem at_most_one_upstream_call:
  "length (calls (analyzeSoil ops apiKey upstream reqBody)) \<le> 1
   \<and> (nullish reqBody \<or> missingRequired ops reqBody \<longrightarrow>
        calls (analyzeSoil ops apiKey upstream reqBody) = [])
   \<and> (\<not> nullish reqBody \<and> \<not> missingRequired ops reqBody \<longrightarrow>
        (case promptFor ops reqBody of
           Inr prompt \<Rightarrow>
             calls (analyzeSoil ops apiKey upstream reqBody) = [geminiRequest apiKey prompt]
         | Inl error \<Rightarrow> calls (analyzeSoil ops apiKey upstream reqBody) = []))
   \<and> calls (analyzeSoil ops apiKey upstream reqBody) =
       calls (analyzeSoil ops apiKey upstream' reqBody)"
  by (simp add: analyzeSoil_unfold split: sum.split)

theorem at_most_one_upstream_call_witness:
  "calls (analyzeSoil writtenNumber (asc ''key'')
      (always (Rejected (JsError (asc ''connect ETIMEDOUT'') None))) riceSample) =
     [geminiRequest (asc ''key'') ricePrompt]
   \<and> calls (analyzeSoil writtenNumber (asc ''key'')
      (always (Resolved (AxiosResponse 200 (generated (JStr (asc ''ok'')))))) (JObj [])) = []"
proof -
  have e: "missingRequired writtenNumber (JObj [])"
    by (simp add: missingRequired_def)
  show ?thesis
    using
      at_most_one_upstream_call [of writtenNumber "asc ''key''"
        "always (Rejected (JsError (asc ''connect ETIMEDOUT'') None))" riceSample]
      at_most_one_upstream_call [of writtenNumber "asc ''key''"
        "always (Resolved (AxiosResponse 200 (generated (JStr (asc ''ok'')))))" "JObj []"]
      e
    by (simp add: riceSample_valid)
qed

text \<open>
  The claim C7 as stated fails where it says that a request that passes validation makes
  exactly one call: below \<^verbatim>\<open>cropName\<close> is the object \<^verbatim>\<open>{"toString": "rice"}\<close>, which is truthy,
  so validation passes; the template throws on it and no call is made.
\<close>

theorem valid_payload_without_upstream_call:
  "\<not> nullish (soilSample (JNum (asc ''25'')) (JNum (asc ''60'')) (JNum (asc ''40''))
        (JNum (asc ''50'')) (JNum (asc ''30'')) (JNum (asc ''20'')) (JNum (asc ''6.5''))
        (JNum (asc ''100'')) (JObj [(asc ''toString'', JStr (asc ''rice''))]))
   \<and> \<not> missingRequired writtenNumber
       (soilSample (JNum (asc ''25'')) (JNum (asc ''60'')) (JNum (asc ''40''))
        (JNum (asc ''50'')) (JNum (asc ''30'')) (JNum (asc ''20'')) (JNum (asc ''6.5''))
        (JNum (asc ''100'')) (JObj [(asc ''toString'', JStr (asc ''rice''))]))
   \<and> analyzeSoil writtenNumber (asc ''key'')
        (always (Resolved (AxiosResponse 200 (generated (JStr (asc ''ok''))))))
        (soilSample (JNum (asc ''25'')) (JNum (asc ''60'')) (JNum (asc ''40''))
          (JNum (asc ''50'')) (JNum (asc ''30'')) (JNum (asc ''20'')) (JNum (asc ''6.5''))
          (JNum (asc ''100'')) (JObj [(asc ''toString'', JStr (asc ''rice''))])) =
       Run [] (Some (HttpResponse 500
         (JObj [(asc ''error'',
                   JStr (asc ''Internal Server Error. Please check your request or server logs.'')),
                (asc ''message'', JStr (asc ''Cannot convert object to primitive value''))])))"
  by (simp add: analyzeSoil_unfold nullish_soilSample missingRequired_soilSample
      promptFor_soilSample buildPrompt_def andThen_def catchBlock_def typeError_def
      notPrimitive_def)

end
